theory Spec2Isabelle
  imports Complex_Main "HOL-Library.Multiset"
begin

section \<open>The telegrip teleoperator adapter\<close>

text \<open>
  A shallow embedding of \<^verbatim>\<open>TelegripTeleoperator\<close>
  (\<^verbatim>\<open>src/lerobot/teleoperators/telegrip/telegrip_teleop.py\<close>) and of its configuration
  (\<^verbatim>\<open>config_telegrip.py\<close>). The adapter object is a record; every method takes the
  adapter and returns its result, the adapter afterwards and the list of calls it made
  to its collaborators (logger, subsystem, thread, event loop), in program order.
  A raised exception is the \<open>Inl\<close> branch of the result. Exceptions are those of
  class \<^verbatim>\<open>Exception\<close>, the ones the handlers of the source catch.
\<close>

subsection \<open>Python values\<close>

text \<open>An exception raised by a collaborator: its class name and its message \<^verbatim>\<open>str(e)\<close>.\<close>

datatype exn = Exn (exn_class: string) (exn_msg: string)

text \<open>Modelled from the spec: the two error classes of \<^verbatim>\<open>lerobot.utils.errors\<close>, which is
  not among the source files (``AlreadyConnected'', ``NotConnected''), each carrying its
  message. \<open>Raised\<close> is any other exception, passed through as it is.
\<close>

datatype error =
    DeviceAlreadyConnectedError string
  | DeviceNotConnectedError string
  | Raised exn

text \<open>The values a raw event record may hold under a key.\<close>

datatype pyval = PyNone | PyStr string | PyInt int | PyBool bool

text \<open>A raw event is a dict with string keys; \<^verbatim>\<open>event.get(k)\<close> is \<open>map_of event k\<close>.\<close>

type_synonym event = "(string \<times> pyval) list"

text \<open>
  A Python dict keeps insertion order: \<^verbatim>\<open>d[k] = v\<close> overwrites the value of a key
  that is present, in place, and appends a key that is not.
\<close>

primrec setitem :: "('k \<times> 'v) list \<Rightarrow> 'k \<Rightarrow> 'v \<Rightarrow> ('k \<times> 'v) list" where
  "setitem [] k v = [(k, v)]"
| "setitem (p # ps) k v = (if fst p = k then (k, v) # ps else p # setitem ps k v)"

text \<open>\<^verbatim>\<open>{key(x): val(x) for x in xs}\<close>: the items are stored one after the other.\<close>

definition dict_comp :: "('a \<Rightarrow> 'k) \<Rightarrow> ('a \<Rightarrow> 'v) \<Rightarrow> 'a list \<Rightarrow> ('k \<times> 'v) list" where
  "dict_comp key val xs = fold (\<lambda>x d. setitem d (key x) (val x)) xs []"

text \<open>\<^verbatim>\<open>d1 | d2\<close>: a copy of \<open>d1\<close> updated with the items of \<open>d2\<close>, in their order.\<close>

definition dict_union :: "('k \<times> 'v) list \<Rightarrow> ('k \<times> 'v) list \<Rightarrow> ('k \<times> 'v) list" where
  "dict_union d1 d2 = fold (\<lambda>(k, v) d. setitem d k v) d2 d1"

text \<open>The feature types: only \<^verbatim>\<open>float\<close> occurs.\<close>

datatype pytype = PyFloatType

subsection \<open>Calls to collaborators\<close>

datatype level = INFO | WARNING | ERROR

text \<open>
  What a method does besides computing: log records, the queries it sends to the
  subsystem, and the thread and event-loop operations, in the order the source makes them.
\<close>

datatype effect =
    Log level string
  | Sleep nat
  | Import_telegrip
  | Call_get_arm_angles string
  | Call_engage
  | Call_get_vr_events
  | Call_stop
  | Thread_start
  | Thread_join
  | Loop_stop
  | Call_start
  | Loop_close

subsection \<open>Configuration (\<^verbatim>\<open>TelegripConfig\<close>)\<close>

record TelegripConfig =
  bimanual :: bool
  left_arm_port :: "string option"
  right_arm_port :: string
  https_port :: int
  websocket_port :: int
  host_ip :: string
  log_level :: string
  autoconnect :: bool
  enable_robot :: bool
  enable_pybullet :: bool
  enable_pybullet_gui :: bool
  enable_vr :: bool
  enable_keyboard :: bool

text \<open>The defaults of the dataclass.\<close>

definition default_config :: TelegripConfig where
  "default_config = \<lparr>
     bimanual = False, left_arm_port = None, right_arm_port = ''/dev/ttyACM0'',
     https_port = 8443, websocket_port = 8442, host_ip = ''0.0.0.0'',
     log_level = ''warning'', autoconnect = False, enable_robot = True,
     enable_pybullet = True, enable_pybullet_gui = True, enable_vr = True,
     enable_keyboard = True \<rparr>"

subsection \<open>The control subsystem, as the adapter sees it\<close>

text \<open>
  The subsystem (package \<^verbatim>\<open>telegrip\<close>) is an external collaborator. It is modelled by
  what the adapter reads from it and by the outcome of each call the adapter makes:
  \<open>Inl e\<close> where the call raises \<open>e\<close>. An attribute that is \<^verbatim>\<open>None\<close> (or falsy) is
  \<open>None\<close>; \<open>get_vr_events = None\<close> is a subsystem without that attribute. Joint angles
  are floats, modelled as reals.
\<close>

record robot_interface =
  get_arm_angles :: "string \<Rightarrow> exn + real list"
  engage :: "exn option"

record control_loop =
  robot_interface :: "robot_interface option"

record TelegripSystem =
  is_running :: bool
  control_loop :: "control_loop option"
  get_vr_events :: "(exn + event list) option"

text \<open>The configuration object \<^verbatim>\<open>connect\<close> builds for the subsystem.\<close>

record TelegripSystemConfig =
  follower_ports :: "(string \<times> string) list"
  sys_enable_robot :: bool
  sys_enable_pybullet :: bool
  sys_enable_pybullet_gui :: bool
  sys_enable_vr :: bool
  sys_enable_keyboard :: bool
  sys_autoconnect :: bool
  sys_log_level :: string
  sys_https_port :: int
  sys_websocket_port :: int
  sys_host_ip :: string

text \<open>Threads and event loops are opaque objects, named by a number.\<close>

type_synonym handle = nat

text \<open>
  The outcomes of the steps of \<^verbatim>\<open>connect\<close> that leave the adapter: the import of the
  package, the constructor \<^verbatim>\<open>TelegripSystem(telegrip_config)\<close>, the thread object
  created and the outcome of its \<^verbatim>\<open>start()\<close>. The background thread, not
  \<^verbatim>\<open>connect\<close>, assigns \<^verbatim>\<open>self._loop\<close>: \<open>thread_loop\<close> is the loop it has stored
  there when \<^verbatim>\<open>connect\<close> resumes after its sleep, \<open>None\<close> when it has stored none.
  \<open>start_result\<close> is the outcome of the subsystem's own \<^verbatim>\<open>start()\<close>, which the
  thread runs on that loop: \<open>Some e\<close> where it raises \<open>e\<close>.
\<close>

record connect_env =
  import_telegrip :: "exn option"
  new_TelegripSystem :: "TelegripSystemConfig \<Rightarrow> exn + TelegripSystem"
  new_thread :: handle
  thread_start :: "exn option"
  thread_loop :: "handle option"
  start_result :: "exn option"

text \<open>
  The outcomes of the steps of \<^verbatim>\<open>disconnect\<close>: scheduling the stop coroutine on the
  loop (\<^verbatim>\<open>run_coroutine_threadsafe\<close>), waiting for its result with a timeout of 5,
  and asking the loop to stop (\<^verbatim>\<open>call_soon_threadsafe\<close>). \<^verbatim>\<open>join(timeout=5)\<close> returns
  whether or not the thread has ended.
\<close>

datatype stop_outcome = Stopped | Stop_raised exn | Stop_timed_out

record disconnect_env =
  schedule_stop :: "exn option"
  stop_result :: stop_outcome
  loop_stop :: "exn option"

subsection \<open>The adapter (\<^verbatim>\<open>TelegripTeleoperator\<close>)\<close>

text \<open>
  The attributes set by \<^verbatim>\<open>__init__\<close>. \<open>self_str\<close> is \<^verbatim>\<open>str(self)\<close>, which the base
  class \<^verbatim>\<open>Teleoperator\<close> defines and the messages of the adapter quote; the base class
  is not among the source files, so the string is a field.
\<close>

record TelegripTeleoperator =
  config :: TelegripConfig
  self_str :: string
  telegrip_system :: "TelegripSystem option"
  is_connected_flag :: bool
  telegrip_thread :: "handle option"
  last_action :: "(string \<times> real) list option"
  loop :: "handle option"
  left_arm_angles :: "real list"
  right_arm_angles :: "real list"

definition motor_names :: "string list" where
  "motor_names =
     [''shoulder_pan'', ''shoulder_lift'', ''elbow_flex'', ''wrist_flex'', ''wrist_roll'',
      ''gripper'']"

definition init :: "string \<Rightarrow> TelegripConfig \<Rightarrow> TelegripTeleoperator" where
  "init s cfg = \<lparr>
     config = cfg, self_str = s, telegrip_system = None, is_connected_flag = False,
     telegrip_thread = None, last_action = None, loop = None,
     left_arm_angles = replicate 6 0, right_arm_angles = replicate 6 0 \<rparr>"

text \<open>The result of a method: value or exception, the adapter afterwards, the calls made.\<close>

type_synonym 'a outcome = "(error + 'a) \<times> TelegripTeleoperator \<times> effect list"

subsection \<open>Feature discovery\<close>

definition action_features :: "TelegripTeleoperator \<Rightarrow> (string \<times> pytype) list" where
  "action_features a =
     (if bimanual (config a) then
        dict_union
          (dict_comp (\<lambda>motor. ''left_'' @ motor @ ''.pos'') (\<lambda>motor. PyFloatType) motor_names)
          (dict_comp (\<lambda>motor. ''right_'' @ motor @ ''.pos'') (\<lambda>motor. PyFloatType) motor_names)
      else dict_comp (\<lambda>motor. motor @ ''.pos'') (\<lambda>motor. PyFloatType) motor_names)"

definition feedback_features :: "TelegripTeleoperator \<Rightarrow> (string \<times> pytype) list" where
  "feedback_features a = []"

definition is_connected :: "TelegripTeleoperator \<Rightarrow> bool" where
  "is_connected a =
     (case telegrip_system a of
        None \<Rightarrow> False
      | Some sys \<Rightarrow> is_running sys \<and> is_connected_flag a)"

definition is_calibrated :: "TelegripTeleoperator \<Rightarrow> bool" where
  "is_calibrated a = True"

subsection \<open>Teleoperation events (\<^verbatim>\<open>get_teleop_events\<close>)\<close>

text \<open>Modelled from the spec: the enumeration \<^verbatim>\<open>TeleopEvents\<close> of
  \<^verbatim>\<open>lerobot.teleoperators.utils\<close>, which is not among the source files. Its five members
  name the five signals (success, failure, rerecord, intervention, terminate); the
  result dict is keyed by their values, which are five different names.\<close>

datatype TeleopEvents =
  SUCCESS | FAILURE | RERECORD_EPISODE | IS_INTERVENTION | TERMINATE_EPISODE

definition drain_vr_events :: "TelegripTeleoperator \<Rightarrow> event list \<times> effect list" where
  "drain_vr_events a =
     (case telegrip_system a of
        None \<Rightarrow> ([], [])
      | Some sys \<Rightarrow>
          (case get_vr_events sys of
             None \<Rightarrow> ([], [])
           | Some (Inr evs) \<Rightarrow> (evs, [Call_get_vr_events])
           | Some (Inl e) \<Rightarrow>
               ([], [Call_get_vr_events,
                     Log WARNING (''Error pulling VR events from telegrip: '' @ exn_msg e)])))"

text \<open>One round of the loop over the raw events: the dict and the log records so far.\<close>

definition teleop_step ::
  "event \<Rightarrow> (TeleopEvents \<times> bool) list \<times> effect list
    \<Rightarrow> (TeleopEvents \<times> bool) list \<times> effect list" where
  "teleop_step event st =
     (let events = fst st; tr = snd st; event_type = map_of event ''type'' in
      if event_type = Some (PyStr ''button_a'') then
        (setitem (setitem events SUCCESS True) TERMINATE_EPISODE True,
         tr @ [Log INFO
                 ''Telegrip: button A event received -> terminate episode (mark success)''])
      else if event_type = Some (PyStr ''button_b'') then
        (setitem (setitem events RERECORD_EPISODE True) TERMINATE_EPISODE True,
         tr @ [Log INFO
                 ''Telegrip: button B event received -> terminate and rerecord episode''])
      else (events, tr))"

definition get_teleop_events ::
  "TelegripTeleoperator \<Rightarrow> (TeleopEvents \<times> bool) list \<times> effect list" where
  "get_teleop_events a =
     (let events =
            [(SUCCESS, False), (FAILURE, False), (RERECORD_EPISODE, False),
             (IS_INTERVENTION, False), (TERMINATE_EPISODE, False)];
          drained = drain_vr_events a
      in fold teleop_step (fst drained) (events, snd drained))"

subsection \<open>Polling the joint angles (\<^verbatim>\<open>get_action\<close>)\<close>

text \<open>\<^verbatim>\<open>float(angle)\<close> of a float is the float.\<close>

definition float_of :: "real \<Rightarrow> real" where
  "float_of angle = angle"

text \<open>
  \<^verbatim>\<open>for motor_name, angle in zip(self._motor_names, angles):
      action[f"{prefix}{motor_name}.pos"] = float(angle)\<close>
\<close>

definition store_angles ::
  "string \<Rightarrow> real list \<Rightarrow> (string \<times> real) list \<Rightarrow> (string \<times> real) list" where
  "store_angles prefix angles action =
     fold (\<lambda>(motor_name, angle) d. setitem d (prefix @ motor_name @ ''.pos'') (float_of angle))
       (zip motor_names angles) action"

text \<open>The handler of \<^verbatim>\<open>get_action\<close>: log the exception and raise it again.\<close>

definition get_action_failed ::
  "exn \<Rightarrow> TelegripTeleoperator \<Rightarrow> effect list \<Rightarrow> ((string \<times> real) list) outcome" where
  "get_action_failed e a tr =
     (Inl (Raised e), a, tr @ [Log ERROR (''Error getting action from telegrip: '' @ exn_msg e)])"

definition get_action_done ::
  "(string \<times> real) list \<Rightarrow> TelegripTeleoperator \<Rightarrow> effect list
    \<Rightarrow> ((string \<times> real) list) outcome" where
  "get_action_done action a tr = (Inr action, a\<lparr>last_action := Some action\<rparr>, tr)"

text \<open>
  Reading an attribute of \<^verbatim>\<open>None\<close> raises \<^verbatim>\<open>AttributeError\<close>, inside the \<^verbatim>\<open>try\<close>.
\<close>

definition quoted :: "string \<Rightarrow> string" where
  "quoted s = [CHR 0x27] @ s @ [CHR 0x27]"

definition attribute_error :: "string \<Rightarrow> exn" where
  "attribute_error attr =
     Exn ''AttributeError''
       (quoted ''NoneType'' @ '' object has no attribute '' @ quoted attr)"

definition get_action :: "TelegripTeleoperator \<Rightarrow> ((string \<times> real) list) outcome" where
  "get_action a =
     (if \<not> is_connected a then
        (Inl (DeviceNotConnectedError
                ''Telegrip is not connected. You need to run `connect()` before `get_action()`.''),
         a, [])
      else
        (case telegrip_system a of
           None \<Rightarrow> get_action_failed (attribute_error ''control_loop'') a []
         | Some sys \<Rightarrow>
        (case control_loop sys of
           None \<Rightarrow> get_action_failed (attribute_error ''robot_interface'') a []
         | Some cl \<Rightarrow>
        (case robot_interface cl of
           None \<Rightarrow>
             get_action_done [] a
               [Log WARNING ''Robot interface not available in telegrip system'']
         | Some ri \<Rightarrow>
             if bimanual (config a) then
               (case get_arm_angles ri ''left'' of
                  Inl e \<Rightarrow> get_action_failed e a [Call_get_arm_angles ''left'']
                | Inr left_angles \<Rightarrow>
                    (case get_arm_angles ri ''right'' of
                       Inl e \<Rightarrow>
                         get_action_failed e a
                           [Call_get_arm_angles ''left'', Call_get_arm_angles ''right'']
                     | Inr right_angles \<Rightarrow>
                         get_action_done
                           (store_angles ''right_'' right_angles
                              (store_angles ''left_'' left_angles []))
                           a [Call_get_arm_angles ''left'', Call_get_arm_angles ''right'']))
             else
               (case get_arm_angles ri ''right'' of
                  Inl e \<Rightarrow> get_action_failed e a [Call_get_arm_angles ''right'']
                | Inr right_angles \<Rightarrow>
                    get_action_done (store_angles [] right_angles [])
                      a [Call_get_arm_angles ''right''])))))"

subsection \<open>Starting the subsystem (\<^verbatim>\<open>connect\<close>)\<close>

text \<open>\<^verbatim>\<open>self.config.left_arm_port or "/dev/ttySO100red"\<close>: an unset or empty port falls back.\<close>

definition left_port :: "TelegripConfig \<Rightarrow> string" where
  "left_port cfg =
     (case left_arm_port cfg of
        None \<Rightarrow> ''/dev/ttySO100red''
      | Some p \<Rightarrow> if p = [] then ''/dev/ttySO100red'' else p)"

definition telegrip_config :: "TelegripConfig \<Rightarrow> TelegripSystemConfig" where
  "telegrip_config cfg = \<lparr>
     follower_ports = [(''left'', left_port cfg), (''right'', right_arm_port cfg)],
     sys_enable_robot = enable_robot cfg,
     sys_enable_pybullet = enable_pybullet cfg,
     sys_enable_pybullet_gui = enable_pybullet_gui cfg,
     sys_enable_vr = enable_vr cfg,
     sys_enable_keyboard = enable_keyboard cfg,
     sys_autoconnect = autoconnect cfg,
     sys_log_level = log_level cfg,
     sys_https_port = https_port cfg,
     sys_websocket_port = websocket_port cfg,
     sys_host_ip = host_ip cfg \<rparr>"

text \<open>The handler of \<^verbatim>\<open>connect\<close>: log, clear the flag, raise the exception again.\<close>

definition connect_failed :: "exn \<Rightarrow> TelegripTeleoperator \<Rightarrow> effect list \<Rightarrow> unit outcome" where
  "connect_failed e a tr =
     (Inl (Raised e), a\<lparr>is_connected_flag := False\<rparr>,
      tr @ [Log ERROR (''Failed to connect telegrip: '' @ exn_msg e)])"

definition connect_done :: "TelegripTeleoperator \<Rightarrow> effect list \<Rightarrow> unit outcome" where
  "connect_done a tr =
     (Inr (), a\<lparr>is_connected_flag := True\<rparr>,
      tr @ [Log INFO (self_str a @ '' connected successfully'')])"

text \<open>
  The part of \<^verbatim>\<open>connect\<close> after the thread has been started and the first sleep is
  over: engage the motors if configured and if the robot interface is there.
\<close>

definition auto_engage :: "TelegripTeleoperator \<Rightarrow> TelegripSystem \<Rightarrow> effect list \<Rightarrow> unit outcome" where
  "auto_engage a sys tr =
     (if autoconnect (config a) \<and> enable_robot (config a) then
        (let tr1 = tr @ [Log INFO ''Auto-engaging robot motors...'', Sleep 1] in
         case control_loop sys of
           None \<Rightarrow> connect_done a tr1
         | Some cl \<Rightarrow>
             (case robot_interface cl of
                None \<Rightarrow> connect_done a tr1
              | Some ri \<Rightarrow>
                  (case engage ri of
                     Some e \<Rightarrow> connect_failed e a (tr1 @ [Call_engage])
                   | None \<Rightarrow> connect_done a (tr1 @ [Call_engage]))))
      else connect_done a tr)"

text \<open>
  The body of the background thread, \<^verbatim>\<open>run_telegrip_in_thread\<close>, as far as it has run
  when \<^verbatim>\<open>connect\<close> resumes after its sleep: it stores a new event loop in
  \<^verbatim>\<open>self._loop\<close> and runs the subsystem's \<^verbatim>\<open>start()\<close> on it. An exception of
  \<^verbatim>\<open>start()\<close> is caught there, logged as an error, and the loop is closed; it does not
  leave the thread. Otherwise the loop keeps running. With \<open>thread_loop = None\<close> the
  thread has stored no loop and done nothing else.
\<close>

definition run_telegrip_in_thread ::
  "connect_env \<Rightarrow> TelegripTeleoperator \<Rightarrow> TelegripTeleoperator \<times> effect list" where
  "run_telegrip_in_thread env a =
     (case thread_loop env of
        None \<Rightarrow> (a, [])
      | Some l \<Rightarrow>
          (a\<lparr>loop := Some l\<rparr>,
           Call_start #
           (case start_result env of
              None \<Rightarrow> []
            | Some e \<Rightarrow>
                [Log ERROR (''Error in telegrip thread: '' @ exn_msg e), Loop_close])))"

text \<open>
  \<^verbatim>\<open>connect\<close>. The calls of the background thread are listed where they happen, between
  the start of the thread and the end of the sleep of the calling thread.
\<close>

definition connect :: "connect_env \<Rightarrow> bool \<Rightarrow> TelegripTeleoperator \<Rightarrow> unit outcome" where
  "connect env calibrate a =
     (if is_connected a then
        (Inl (DeviceAlreadyConnectedError (self_str a @ '' already connected'')), a, [])
      else
        (let tr0 = [Log INFO ''Starting telegrip system...'', Import_telegrip] in
         case import_telegrip env of
           Some e \<Rightarrow> connect_failed e a tr0
         | None \<Rightarrow>
        (case new_TelegripSystem env (telegrip_config (config a)) of
           Inl e \<Rightarrow> connect_failed e a tr0
         | Inr sys \<Rightarrow>
        (let a1 = a\<lparr>telegrip_system := Some sys\<rparr>;
             a2 = a1\<lparr>telegrip_thread := Some (new_thread env)\<rparr>
         in case thread_start env of
              Some e \<Rightarrow> connect_failed e a2 (tr0 @ [Thread_start])
            | None \<Rightarrow>
                (let th = run_telegrip_in_thread env a2;
                     a3 = fst th
                 in auto_engage a3 sys (tr0 @ [Thread_start] @ snd th @ [Sleep 2]))))))"

subsection \<open>Calibration, configuration, feedback: nothing to do\<close>

definition calibrate :: "TelegripTeleoperator \<Rightarrow> unit outcome" where
  "calibrate a = (Inr (), a, [])"

definition configure :: "TelegripTeleoperator \<Rightarrow> unit outcome" where
  "configure a = (Inr (), a, [])"

definition send_feedback :: "(string \<times> real) list \<Rightarrow> TelegripTeleoperator \<Rightarrow> unit outcome" where
  "send_feedback feedback a = (Inr (), a, [])"

subsection \<open>Stopping the subsystem (\<^verbatim>\<open>disconnect\<close>)\<close>

text \<open>
  \<^verbatim>\<open>fut.result(timeout=5)\<close> raises what the stop coroutine raised, or a timeout error;
  the inner handler logs either as a warning and goes on.
\<close>

definition stop_warning :: "stop_outcome \<Rightarrow> effect list" where
  "stop_warning r =
     (case r of
        Stopped \<Rightarrow> []
      | Stop_raised e \<Rightarrow>
          [Log WARNING (''Timed out or failed stopping telegrip cleanly: '' @ exn_msg e)]
      | Stop_timed_out \<Rightarrow>
          [Log WARNING ''Timed out or failed stopping telegrip cleanly: ''])"

text \<open>The outer handler of \<^verbatim>\<open>disconnect\<close>: log and raise again; nothing is reset.\<close>

definition disconnect_failed :: "exn \<Rightarrow> TelegripTeleoperator \<Rightarrow> effect list \<Rightarrow> unit outcome" where
  "disconnect_failed e a tr =
     (Inl (Raised e), a, tr @ [Log ERROR (''Error disconnecting telegrip: '' @ exn_msg e)])"

definition disconnect_done :: "TelegripTeleoperator \<Rightarrow> effect list \<Rightarrow> unit outcome" where
  "disconnect_done a tr =
     (Inr (), a\<lparr>is_connected_flag := False\<rparr>,
      tr @ [Log INFO (self_str a @ '' disconnected successfully'')])"

definition disconnect :: "disconnect_env \<Rightarrow> TelegripTeleoperator \<Rightarrow> unit outcome" where
  "disconnect env a =
     (if \<not> is_connected a then
        (Inl (DeviceNotConnectedError (self_str a @ '' is not connected.'')), a, [])
      else
        (let tr0 = [Log INFO ''Stopping telegrip system...''] in
         if telegrip_system a \<noteq> None \<and> loop a \<noteq> None then
           (case schedule_stop env of
              Some e \<Rightarrow> disconnect_failed e a (tr0 @ [Call_stop])
            | None \<Rightarrow>
                (let tr1 = tr0 @ [Call_stop] @ stop_warning (stop_result env) in
                 case loop_stop env of
                   Some e \<Rightarrow> disconnect_failed e a (tr1 @ [Loop_stop])
                 | None \<Rightarrow>
                     (let tr2 = tr1 @ [Loop_stop] @
                                (if telegrip_thread a \<noteq> None then [Thread_join] else []);
                          a1 = a\<lparr>loop := None\<rparr>;
                          a2 = a1\<lparr>telegrip_system := None\<rparr>;
                          a3 = a2\<lparr>telegrip_thread := None\<rparr>
                      in disconnect_done a3 tr2)))
         else disconnect_done a tr0))"

subsection \<open>Concrete adapters\<close>

text \<open>
  A robot interface whose arms report the angles 1 to 6 (left) and 7 to 12 (right), one
  whose calls all raise, and subsystems and adapters built from them.
\<close>

definition arms_1_to_12 :: robot_interface where
  "arms_1_to_12 = \<lparr>
     get_arm_angles =
       (\<lambda>side. if side = ''left'' then Inr [1, 2, 3, 4, 5, 6] else Inr [7, 8, 9, 10, 11, 12]),
     engage = None \<rparr>"

definition serial_error :: exn where
  "serial_error = Exn ''SerialException'' ''port closed''"

definition broken_arms :: robot_interface where
  "broken_arms = \<lparr> get_arm_angles = (\<lambda>side. Inl serial_error), engage = Some serial_error \<rparr>"

definition running_system :: "robot_interface option \<Rightarrow> event list \<Rightarrow> TelegripSystem" where
  "running_system ri evs = \<lparr>
     is_running = True,
     control_loop = Some \<lparr> robot_interface = ri \<rparr>,
     get_vr_events = Some (Inr evs) \<rparr>"

definition connected :: "TelegripConfig \<Rightarrow> TelegripSystem \<Rightarrow> TelegripTeleoperator" where
  "connected cfg sys =
     (init ''telegrip'' cfg)\<lparr>
        telegrip_system := Some sys, is_connected_flag := True,
        telegrip_thread := Some 1, loop := Some 2 \<rparr>"

definition bimanual_config :: TelegripConfig where
  "bimanual_config = default_config\<lparr>bimanual := True\<rparr>"

definition autoconnect_config :: TelegripConfig where
  "autoconnect_config = default_config\<lparr>autoconnect := True\<rparr>"

definition button :: "string \<Rightarrow> event" where
  "button t = [(''type'', PyStr t)]"

text \<open>An environment in which every step of \<^verbatim>\<open>connect\<close> succeeds, with the given subsystem.\<close>

definition env_ok :: "TelegripSystem \<Rightarrow> connect_env" where
  "env_ok sys = \<lparr>
     import_telegrip = None, new_TelegripSystem = (\<lambda>c. Inr sys), new_thread = 1,
     thread_start = None, thread_loop = Some 2, start_result = None \<rparr>"

definition stop_env :: "stop_outcome \<Rightarrow> disconnect_env" where
  "stop_env r = \<lparr> schedule_stop = None, stop_result = r, loop_stop = None \<rparr>"

text \<open>
  A connected adapter that holds no event loop: the background thread has stored none
  in \<^verbatim>\<open>self._loop\<close>. An environment in which the import of the package fails.
\<close>

definition connected_without_loop :: TelegripTeleoperator where
  "connected_without_loop = (connected default_config (running_system None []))\<lparr>loop := None\<rparr>"

definition import_error :: exn where
  "import_error = Exn ''ModuleNotFoundError'' ''No module named telegrip''"

definition env_no_package :: connect_env where
  "env_no_package = (env_ok (running_system None []))\<lparr>import_telegrip := Some import_error\<rparr>"

text \<open>
  An environment in which only the subsystem's \<^verbatim>\<open>start()\<close> fails, on the background
  thread. A connected adapter whose subsystem has no control loop.
\<close>

definition start_error :: exn where
  "start_error = Exn ''OSError'' ''address already in use''"

definition env_start_fails :: connect_env where
  "env_start_fails = (env_ok (running_system None []))\<lparr>start_result := Some start_error\<rparr>"

definition system_without_control_loop :: TelegripSystem where
  "system_without_control_loop =
     \<lparr> is_running = True, control_loop = None, get_vr_events = Some (Inr []) \<rparr>"

definition connected_without_control_loop :: TelegripTeleoperator where
  "connected_without_control_loop = connected default_config system_without_control_loop"

section \<open>Properties\<close>

subsection \<open>Dict assignment\<close>

lemma map_of_setitem: "map_of (setitem d k v) = (map_of d)(k \<mapsto> v)"
  by (induction d) auto

lemma setitem_same: "map_of d k = Some v \<Longrightarrow> setitem d k v = d"
  by (induction d) (auto split: if_splits)

lemma setitem_fresh: "k \<notin> fst ` set d \<Longrightarrow> setitem d k v = d @ [(k, v)]"
  by (induction d) auto

text \<open>Storing a run of fresh, pairwise different keys appends them in order.\<close>

lemma fold_setitem_zip:
  "distinct (map f ms) \<Longrightarrow> f ` set ms \<inter> fst ` set d = {} \<Longrightarrow>
   fold (\<lambda>(m, x) d. setitem d (f m) (g x)) (zip ms xs) d = d @ zip (map f ms) (map g xs)"
proof (induction ms arbitrary: xs d)
  case Nil
  show ?case by simp
next
  case (Cons m ms)
  show ?case
  proof (cases xs)
    case Nil
    then show ?thesis by simp
  next
    case (Cons x xs')
    have fresh: "f m \<notin> fst ` set d"
      using Cons.prems(2) by auto
    have d: "distinct (map f ms)"
      using Cons.prems(1) by simp
    have disj: "f ` set ms \<inter> fst ` set (d @ [(f m, g x)]) = {}"
      using Cons.prems by auto
    show ?thesis
      using Cons.IH [OF d disj, of xs'] Cons setitem_fresh [OF fresh, of "g x"]
      by simp
  qed
qed

subsection \<open>Feature discovery\<close>

text \<open>
  Claim C2. The action features depend on the configuration only. With
  \<^verbatim>\<open>bimanual\<close> false they are the six keys \<^verbatim>\<open><motor>.pos\<close> of the fixed motor list, with
  \<^verbatim>\<open>bimanual\<close> true the twelve keys with the prefixes \<^verbatim>\<open>left_\<close> and \<^verbatim>\<open>right_\<close>, each of
  type float. The feedback features are always the empty dict.
\<close>

theorem action_features_keys:
  "(\<not> bimanual (config a) \<longrightarrow>
      action_features a =
        [(''shoulder_pan.pos'', PyFloatType), (''shoulder_lift.pos'', PyFloatType),
         (''elbow_flex.pos'', PyFloatType), (''wrist_flex.pos'', PyFloatType),
         (''wrist_roll.pos'', PyFloatType), (''gripper.pos'', PyFloatType)]) \<and>
   (bimanual (config a) \<longrightarrow>
      action_features a =
        [(''left_shoulder_pan.pos'', PyFloatType), (''left_shoulder_lift.pos'', PyFloatType),
         (''left_elbow_flex.pos'', PyFloatType), (''left_wrist_flex.pos'', PyFloatType),
         (''left_wrist_roll.pos'', PyFloatType), (''left_gripper.pos'', PyFloatType),
         (''right_shoulder_pan.pos'', PyFloatType), (''right_shoulder_lift.pos'', PyFloatType),
         (''right_elbow_flex.pos'', PyFloatType), (''right_wrist_flex.pos'', PyFloatType),
         (''right_wrist_roll.pos'', PyFloatType), (''right_gripper.pos'', PyFloatType)]) \<and>
   feedback_features a = [] \<and>
   (\<forall>b. config b = config a \<longrightarrow>
      action_features b = action_features a \<and> feedback_features b = feedback_features a)"
  by (simp add: action_features_def feedback_features_def dict_comp_def dict_union_def
      motor_names_def)

theorem action_features_keys_witness:
  "\<not> bimanual (config (init ''telegrip'' default_config)) \<and>
   map fst (action_features (init ''telegrip'' default_config)) =
     [''shoulder_pan.pos'', ''shoulder_lift.pos'', ''elbow_flex.pos'', ''wrist_flex.pos'',
      ''wrist_roll.pos'', ''gripper.pos''] \<and>
   bimanual (config (init ''telegrip'' bimanual_config)) \<and>
   length (action_features (init ''telegrip'' bimanual_config)) = 12 \<and>
   config (connected default_config (running_system None [])) =
     config (init ''telegrip'' default_config) \<and>
   action_features (connected default_config (running_system None [])) =
     action_features (init ''telegrip'' default_config)"
proof -
  have c1: "\<not> bimanual (config (init ''telegrip'' default_config))"
    by (simp add: init_def default_config_def)
  have c2: "bimanual (config (init ''telegrip'' bimanual_config))"
    by (simp add: init_def bimanual_config_def)
  have c3: "config (connected default_config (running_system None [])) =
     config (init ''telegrip'' default_config)"
    by (simp add: connected_def init_def)
  show ?thesis
    using c1 c2 c3 action_features_keys [of "init ''telegrip'' default_config"]
      action_features_keys [of "init ''telegrip'' bimanual_config"]
    by simp
qed

subsection \<open>Folding the raw events\<close>

text \<open>
  From the all-false dict the loop keeps the five keys in place; each flag ends up true
  exactly when some event of the batch sets it.
\<close>

lemma teleop_step_dict:
  "fst (teleop_step e
     ([(SUCCESS, s), (FAILURE, f), (RERECORD_EPISODE, r), (IS_INTERVENTION, i),
       (TERMINATE_EPISODE, t)], tr)) =
   [(SUCCESS, s \<or> map_of e ''type'' = Some (PyStr ''button_a'')), (FAILURE, f),
    (RERECORD_EPISODE, r \<or> map_of e ''type'' = Some (PyStr ''button_b'')),
    (IS_INTERVENTION, i),
    (TERMINATE_EPISODE, t \<or> map_of e ''type'' = Some (PyStr ''button_a'')
       \<or> map_of e ''type'' = Some (PyStr ''button_b''))]"
  by (simp add: teleop_step_def Let_def)

lemma fold_teleop_step_dict:
  "fst (fold teleop_step evs
     ([(SUCCESS, s), (FAILURE, f), (RERECORD_EPISODE, r), (IS_INTERVENTION, i),
       (TERMINATE_EPISODE, t)], tr)) =
   [(SUCCESS, s \<or> (\<exists>e \<in> set evs. map_of e ''type'' = Some (PyStr ''button_a''))),
    (FAILURE, f),
    (RERECORD_EPISODE, r \<or> (\<exists>e \<in> set evs. map_of e ''type'' = Some (PyStr ''button_b''))),
    (IS_INTERVENTION, i),
    (TERMINATE_EPISODE, t \<or> (\<exists>e \<in> set evs. map_of e ''type'' = Some (PyStr ''button_a''))
       \<or> (\<exists>e \<in> set evs. map_of e ''type'' = Some (PyStr ''button_b'')))]"
proof (induction evs arbitrary: s r t tr)
  case Nil
  show ?case by simp
next
  case (Cons e evs)
  obtain d tr' where st: "teleop_step e
     ([(SUCCESS, s), (FAILURE, f), (RERECORD_EPISODE, r), (IS_INTERVENTION, i),
       (TERMINATE_EPISODE, t)], tr) = (d, tr')"
    by (cases "teleop_step e
     ([(SUCCESS, s), (FAILURE, f), (RERECORD_EPISODE, r), (IS_INTERVENTION, i),
       (TERMINATE_EPISODE, t)], tr)") 
  have d: "d = [(SUCCESS, s \<or> map_of e ''type'' = Some (PyStr ''button_a'')), (FAILURE, f),
    (RERECORD_EPISODE, r \<or> map_of e ''type'' = Some (PyStr ''button_b'')),
    (IS_INTERVENTION, i),
    (TERMINATE_EPISODE, t \<or> map_of e ''type'' = Some (PyStr ''button_a'')
       \<or> map_of e ''type'' = Some (PyStr ''button_b''))]"
    using teleop_step_dict [of e s f r i t tr] st by simp
  show ?case
    unfolding fold_Cons comp_def st d Cons.IH
    by auto
qed

lemma get_teleop_events_dict:
  assumes "telegrip_system a = Some sys" and "get_vr_events sys = Some (Inr evs)"
  shows "fst (get_teleop_events a) =
   [(SUCCESS, \<exists>e \<in> set evs. map_of e ''type'' = Some (PyStr ''button_a'')),
    (FAILURE, False),
    (RERECORD_EPISODE, \<exists>e \<in> set evs. map_of e ''type'' = Some (PyStr ''button_b'')),
    (IS_INTERVENTION, False),
    (TERMINATE_EPISODE, (\<exists>e \<in> set evs. map_of e ''type'' = Some (PyStr ''button_a''))
       \<or> (\<exists>e \<in> set evs. map_of e ''type'' = Some (PyStr ''button_b'')))]"
  using assms
  by (simp add: get_teleop_events_def drain_vr_events_def fold_teleop_step_dict)

lemma get_teleop_events_keys:
  "map fst (fst (get_teleop_events a)) =
     [SUCCESS, FAILURE, RERECORD_EPISODE, IS_INTERVENTION, TERMINATE_EPISODE]"
proof -
  obtain evs tr where d: "drain_vr_events a = (evs, tr)"
    by (cases "drain_vr_events a")
  show ?thesis
    by (simp add: get_teleop_events_def d fold_teleop_step_dict)
qed

text \<open>
  Claim C1. Whatever batch of raw events one poll pulls, \<^verbatim>\<open>get_teleop_events\<close> folds it
  so: a single event of type \<^verbatim>\<open>button_a\<close> gives success and terminate true and the
  other three signals false; a single event of type \<^verbatim>\<open>button_b\<close> gives rerecord and
  terminate true and the others false; a single event of any other type (or of none)
  gives all five false; a batch holding both a \<^verbatim>\<open>button_a\<close> and a \<^verbatim>\<open>button_b\<close> event
  gives success, rerecord and terminate true, failure and intervention false.
\<close>

theorem get_teleop_events_buttons:
  assumes "telegrip_system a = Some sys" and "get_vr_events sys = Some (Inr evs)"
  shows
    "(\<forall>e. evs = [e] \<and> map_of e ''type'' = Some (PyStr ''button_a'') \<longrightarrow>
        fst (get_teleop_events a) =
          [(SUCCESS, True), (FAILURE, False), (RERECORD_EPISODE, False),
           (IS_INTERVENTION, False), (TERMINATE_EPISODE, True)]) \<and>
     (\<forall>e. evs = [e] \<and> map_of e ''type'' = Some (PyStr ''button_b'') \<longrightarrow>
        fst (get_teleop_events a) =
          [(SUCCESS, False), (FAILURE, False), (RERECORD_EPISODE, True),
           (IS_INTERVENTION, False), (TERMINATE_EPISODE, True)]) \<and>
     (\<forall>e. evs = [e] \<and> map_of e ''type'' \<noteq> Some (PyStr ''button_a'') \<and>
          map_of e ''type'' \<noteq> Some (PyStr ''button_b'') \<longrightarrow>
        fst (get_teleop_events a) =
          [(SUCCESS, False), (FAILURE, False), (RERECORD_EPISODE, False),
           (IS_INTERVENTION, False), (TERMINATE_EPISODE, False)]) \<and>
     ((\<exists>e \<in> set evs. map_of e ''type'' = Some (PyStr ''button_a'')) \<and>
      (\<exists>e \<in> set evs. map_of e ''type'' = Some (PyStr ''button_b'')) \<longrightarrow>
        fst (get_teleop_events a) =
          [(SUCCESS, True), (FAILURE, False), (RERECORD_EPISODE, True),
           (IS_INTERVENTION, False), (TERMINATE_EPISODE, True)])"
  unfolding get_teleop_events_dict [OF assms] by auto

theorem get_teleop_events_buttons_witness:
  "fst (get_teleop_events (connected default_config (running_system None [button ''button_a'']))) =
     [(SUCCESS, True), (FAILURE, False), (RERECORD_EPISODE, False),
      (IS_INTERVENTION, False), (TERMINATE_EPISODE, True)] \<and>
   fst (get_teleop_events (connected default_config (running_system None [button ''button_b'']))) =
     [(SUCCESS, False), (FAILURE, False), (RERECORD_EPISODE, True),
      (IS_INTERVENTION, False), (TERMINATE_EPISODE, True)] \<and>
   fst (get_teleop_events (connected default_config (running_system None [button ''unknown'']))) =
     [(SUCCESS, False), (FAILURE, False), (RERECORD_EPISODE, False),
      (IS_INTERVENTION, False), (TERMINATE_EPISODE, False)] \<and>
   fst (get_teleop_events (connected default_config
          (running_system None [button ''button_b'', button ''unknown'', button ''button_a'']))) =
     [(SUCCESS, True), (FAILURE, False), (RERECORD_EPISODE, True),
      (IS_INTERVENTION, False), (TERMINATE_EPISODE, True)]"
proof -
  have sys: "telegrip_system (connected default_config (running_system None evs)) =
      Some (running_system None evs)" for evs
    by (simp add: connected_def)
  have evs: "get_vr_events (running_system None evs) = Some (Inr evs)" for evs
    by (simp add: running_system_def)
  show ?thesis
    using get_teleop_events_buttons [OF sys evs, of "[button ''button_a'']"]
      get_teleop_events_buttons [OF sys evs, of "[button ''button_b'']"]
      get_teleop_events_buttons [OF sys evs, of "[button ''unknown'']"]
      get_teleop_events_buttons [OF sys evs,
        of "[button ''button_b'', button ''unknown'', button ''button_a'']"]
    by (simp add: button_def)
qed

text \<open>
  Claim C9. Two batches of raw events that are permutations of each other fold to the
  same five signals, and handling an event a second time changes nothing in the dict:
  it only stores again the values that are already there.
\<close>

theorem get_teleop_events_order_independent:
  assumes "telegrip_system a = Some sys" and "get_vr_events sys = Some (Inr evs)"
    and "telegrip_system b = Some sys'" and "get_vr_events sys' = Some (Inr evs')"
    and "mset evs = mset evs'"
  shows "fst (get_teleop_events a) = fst (get_teleop_events b) \<and>
    (\<forall>e d tr. fst (teleop_step e (teleop_step e (d, tr))) = fst (teleop_step e (d, tr)))"
proof
  have "set evs = set evs'"
    using assms(5) by (rule mset_eq_setD)
  then show "fst (get_teleop_events a) = fst (get_teleop_events b)"
    unfolding get_teleop_events_dict [OF assms(1,2)] get_teleop_events_dict [OF assms(3,4)]
    by simp
next
  show "\<forall>e d tr. fst (teleop_step e (teleop_step e (d, tr))) = fst (teleop_step e (d, tr))"
    by (simp add: teleop_step_def Let_def setitem_same map_of_setitem)
qed

theorem get_teleop_events_order_independent_witness:
  "mset [button ''button_a'', button ''button_b''] = mset [button ''button_b'', button ''button_a''] \<and>
   fst (get_teleop_events (connected default_config
      (running_system None [button ''button_a'', button ''button_b'']))) =
   fst (get_teleop_events (connected default_config
      (running_system None [button ''button_b'', button ''button_a''])))"
proof -
  have sys: "telegrip_system (connected default_config (running_system None evs)) =
      Some (running_system None evs)" for evs
    by (simp add: connected_def)
  have evs: "get_vr_events (running_system None evs) = Some (Inr evs)" for evs
    by (simp add: running_system_def)
  have m: "mset [button ''button_a'', button ''button_b''] =
      mset [button ''button_b'', button ''button_a'']"
    by simp
  show ?thesis
    using m get_teleop_events_order_independent [OF sys evs sys evs m] by simp
qed

subsection \<open>Calls on a disconnected adapter\<close>

text \<open>
  Claim C6. On a disconnected adapter \<^verbatim>\<open>get_action\<close> and \<^verbatim>\<open>disconnect\<close> raise
  \<^verbatim>\<open>DeviceNotConnectedError\<close> and change nothing. \<^verbatim>\<open>get_teleop_events\<close> has no such
  precondition: it returns the dict of the five signals all the same, and with no
  subsystem object all five are false and no call is made.
\<close>

theorem disconnected_calls:
  assumes "\<not> is_connected a"
  shows
    "get_action a =
       (Inl (DeviceNotConnectedError
          ''Telegrip is not connected. You need to run `connect()` before `get_action()`.''),
        a, []) \<and>
     disconnect env a =
       (Inl (DeviceNotConnectedError (self_str a @ '' is not connected.'')), a, []) \<and>
     map fst (fst (get_teleop_events a)) =
       [SUCCESS, FAILURE, RERECORD_EPISODE, IS_INTERVENTION, TERMINATE_EPISODE] \<and>
     (telegrip_system a = None \<longrightarrow>
        get_teleop_events a =
          ([(SUCCESS, False), (FAILURE, False), (RERECORD_EPISODE, False),
            (IS_INTERVENTION, False), (TERMINATE_EPISODE, False)], []))"
  using assms
  by (simp add: get_action_def disconnect_def get_teleop_events_keys)
    (simp add: get_teleop_events_def drain_vr_events_def)

theorem disconnected_calls_witness:
  "\<not> is_connected (init ''telegrip'' default_config) \<and>
   telegrip_system (init ''telegrip'' default_config) = None \<and>
   (\<exists>msg. fst (get_action (init ''telegrip'' default_config)) =
      Inl (DeviceNotConnectedError msg)) \<and>
   fst (disconnect (stop_env Stopped) (init ''telegrip'' default_config)) =
      Inl (DeviceNotConnectedError ''telegrip is not connected.'') \<and>
   get_teleop_events (init ''telegrip'' default_config) =
     ([(SUCCESS, False), (FAILURE, False), (RERECORD_EPISODE, False),
       (IS_INTERVENTION, False), (TERMINATE_EPISODE, False)], [])"
proof -
  have n: "\<not> is_connected (init ''telegrip'' default_config)"
    by (simp add: is_connected_def init_def)
  have s: "telegrip_system (init ''telegrip'' default_config) = None"
    by (simp add: init_def)
  have str: "self_str (init ''telegrip'' default_config) = ''telegrip''"
    by (simp add: init_def)
  show ?thesis
    using n s disconnected_calls [OF n, of "stop_env Stopped"]
    by (simp add: str)
qed

subsection \<open>Polling the joint angles\<close>

lemma store_angles_fresh:
  assumes "(\<lambda>m. prefix @ m @ ''.pos'') ` set motor_names \<inter> fst ` set action = {}"
  shows "store_angles prefix angles action =
    action @ zip (map (\<lambda>m. prefix @ m @ ''.pos'') motor_names) angles"
proof -
  have d: "distinct (map (\<lambda>m. prefix @ m @ ''.pos'') motor_names)"
    by (simp add: motor_names_def)
  have f: "map float_of angles = angles"
    by (induction angles) (simp_all add: float_of_def)
  show ?thesis
    unfolding store_angles_def
    using fold_setitem_zip [OF d assms, of float_of angles]
    by (simp add: f)
qed

lemma single_arm_keys:
  "map (\<lambda>m. m @ ''.pos'') motor_names =
     [''shoulder_pan.pos'', ''shoulder_lift.pos'', ''elbow_flex.pos'', ''wrist_flex.pos'',
      ''wrist_roll.pos'', ''gripper.pos'']"
  by (simp add: motor_names_def)

text \<open>
  Claim C7. In bimanual mode, with a robot interface that reports the left angles
  1, ..., 6 and the right angles 7, ..., 12, \<^verbatim>\<open>get_action\<close> on a connected adapter returns
  the twelve keys \<^verbatim>\<open>left_shoulder_pan.pos\<close>, ..., \<^verbatim>\<open>right_gripper.pos\<close> with the values
  1.0, ..., 12.0, the six joint names paired with the angles in order.
\<close>

theorem get_action_bimanual_1_to_12:
  assumes "is_connected a" and "bimanual (config a)"
    and "telegrip_system a = Some sys" and "control_loop sys = Some cl"
    and "robot_interface cl = Some ri"
    and "get_arm_angles ri ''left'' = Inr [1, 2, 3, 4, 5, 6]"
    and "get_arm_angles ri ''right'' = Inr [7, 8, 9, 10, 11, 12]"
  shows "fst (get_action a) =
    Inr [(''left_shoulder_pan.pos'', 1), (''left_shoulder_lift.pos'', 2),
         (''left_elbow_flex.pos'', 3), (''left_wrist_flex.pos'', 4),
         (''left_wrist_roll.pos'', 5), (''left_gripper.pos'', 6),
         (''right_shoulder_pan.pos'', 7), (''right_shoulder_lift.pos'', 8),
         (''right_elbow_flex.pos'', 9), (''right_wrist_flex.pos'', 10),
         (''right_wrist_roll.pos'', 11), (''right_gripper.pos'', 12)]"
  using assms
  by (simp add: get_action_def get_action_done_def store_angles_def motor_names_def
      float_of_def)

theorem get_action_bimanual_1_to_12_witness:
  "is_connected (connected bimanual_config (running_system (Some arms_1_to_12) [])) \<and>
   fst (get_action (connected bimanual_config (running_system (Some arms_1_to_12) []))) =
    Inr [(''left_shoulder_pan.pos'', 1), (''left_shoulder_lift.pos'', 2),
         (''left_elbow_flex.pos'', 3), (''left_wrist_flex.pos'', 4),
         (''left_wrist_roll.pos'', 5), (''left_gripper.pos'', 6),
         (''right_shoulder_pan.pos'', 7), (''right_shoulder_lift.pos'', 8),
         (''right_elbow_flex.pos'', 9), (''right_wrist_flex.pos'', 10),
         (''right_wrist_roll.pos'', 11), (''right_gripper.pos'', 12)]"
proof -
  let ?sys = "running_system (Some arms_1_to_12) []"
  let ?a = "connected bimanual_config ?sys"
  have c: "is_connected ?a"
    by (simp add: is_connected_def connected_def running_system_def)
  have b: "bimanual (config ?a)"
    by (simp add: connected_def init_def bimanual_config_def)
  have s: "telegrip_system ?a = Some ?sys"
    by (simp add: connected_def)
  have cl: "control_loop ?sys = Some \<lparr> robot_interface = Some arms_1_to_12 \<rparr>"
    by (simp add: running_system_def)
  have ri: "robot_interface \<lparr> robot_interface = Some arms_1_to_12 \<rparr> = Some arms_1_to_12"
    by simp
  have l: "get_arm_angles arms_1_to_12 ''left'' = Inr [1, 2, 3, 4, 5, 6]"
    by (simp add: arms_1_to_12_def)
  have r: "get_arm_angles arms_1_to_12 ''right'' = Inr [7, 8, 9, 10, 11, 12]"
    by (simp add: arms_1_to_12_def)
  show ?thesis
    using c get_action_bimanual_1_to_12 [OF c b s cl ri l r] by simp
qed

text \<open>
  Claim C10. In single-arm mode, with a robot interface present, \<^verbatim>\<open>get_action\<close> on a
  connected adapter asks for the angles of the side \<^verbatim>\<open>right\<close> and of no other side, and
  the unprefixed keys \<^verbatim>\<open><motor>.pos\<close> receive the right arm's angles in order (all six
  keys when six angles are reported).
\<close>

theorem get_action_single_arm:
  assumes "is_connected a" and "\<not> bimanual (config a)"
    and "telegrip_system a = Some sys" and "control_loop sys = Some cl"
    and "robot_interface cl = Some ri"
  shows
    "(\<forall>side. Call_get_arm_angles side \<in> set (snd (snd (get_action a))) \<longleftrightarrow> side = ''right'') \<and>
     (\<forall>angles. get_arm_angles ri ''right'' = Inr angles \<longrightarrow>
        fst (get_action a) =
          Inr (zip [''shoulder_pan.pos'', ''shoulder_lift.pos'', ''elbow_flex.pos'',
                    ''wrist_flex.pos'', ''wrist_roll.pos'', ''gripper.pos''] angles))"
proof -
  have st: "store_angles [] angles [] =
      zip [''shoulder_pan.pos'', ''shoulder_lift.pos'', ''elbow_flex.pos'',
           ''wrist_flex.pos'', ''wrist_roll.pos'', ''gripper.pos''] angles" for angles
    using store_angles_fresh [of "[]" "[]" angles] by (simp add: single_arm_keys)
  show ?thesis
    using assms
    by (cases "get_arm_angles ri ''right''")
      (auto simp add: get_action_def get_action_done_def get_action_failed_def st)
qed

theorem get_action_single_arm_witness:
  "is_connected (connected default_config (running_system (Some arms_1_to_12) [])) \<and>
   Call_get_arm_angles ''left'' \<notin>
     set (snd (snd (get_action (connected default_config (running_system (Some arms_1_to_12) []))))) \<and>
   fst (get_action (connected default_config (running_system (Some arms_1_to_12) []))) =
     Inr [(''shoulder_pan.pos'', 7), (''shoulder_lift.pos'', 8), (''elbow_flex.pos'', 9),
          (''wrist_flex.pos'', 10), (''wrist_roll.pos'', 11), (''gripper.pos'', 12)]"
proof -
  let ?sys = "running_system (Some arms_1_to_12) []"
  let ?a = "connected default_config ?sys"
  have c: "is_connected ?a"
    by (simp add: is_connected_def connected_def running_system_def)
  have b: "\<not> bimanual (config ?a)"
    by (simp add: connected_def init_def default_config_def)
  have s: "telegrip_system ?a = Some ?sys"
    by (simp add: connected_def)
  have cl: "control_loop ?sys = Some \<lparr> robot_interface = Some arms_1_to_12 \<rparr>"
    by (simp add: running_system_def)
  have ri: "robot_interface \<lparr> robot_interface = Some arms_1_to_12 \<rparr> = Some arms_1_to_12"
    by simp
  have r: "get_arm_angles arms_1_to_12 ''right'' = Inr [7, 8, 9, 10, 11, 12]"
    by (simp add: arms_1_to_12_def)
  show ?thesis
    using c r get_action_single_arm [OF c b s cl ri] by simp
qed

text \<open>
  A subsystem with no control loop at all: reading \<^verbatim>\<open>robot_interface\<close> from \<^verbatim>\<open>None\<close>
  raises inside the \<^verbatim>\<open>try\<close>, and the handler logs the exception and raises it again.
\<close>

lemma get_action_no_control_loop:
  assumes "is_connected a" and "telegrip_system a = Some sys" and "control_loop sys = None"
  shows "get_action a =
    (Inl (Raised (attribute_error ''robot_interface'')), a,
     [Log ERROR (''Error getting action from telegrip: '' @
        exn_msg (attribute_error ''robot_interface''))])"
  using assms by (simp add: get_action_def get_action_failed_def)

text \<open>
  Claim C5 says that a connected adapter whose subsystem exposes no robot interface
  gets the empty action record and a warning from \<^verbatim>\<open>get_action\<close>, not a failure. The
  code does not do so when the subsystem has no control loop: \<^verbatim>\<open>get_action\<close> reads
  \<^verbatim>\<open>control_loop.robot_interface\<close> without testing \<^verbatim>\<open>control_loop\<close>, as \<^verbatim>\<open>connect\<close>
  does before it calls \<^verbatim>\<open>engage\<close>, and raises \<^verbatim>\<open>AttributeError\<close>.
\<close>

theorem get_action_without_control_loop:
  "is_connected connected_without_control_loop \<and>
   telegrip_system connected_without_control_loop = Some system_without_control_loop \<and>
   control_loop system_without_control_loop = None \<and>
   exn_class (attribute_error ''robot_interface'') = ''AttributeError'' \<and>
   get_action connected_without_control_loop =
     (Inl (Raised (attribute_error ''robot_interface'')), connected_without_control_loop,
      [Log ERROR (''Error getting action from telegrip: '' @
         exn_msg (attribute_error ''robot_interface''))]) \<and>
   fst (get_action connected_without_control_loop) \<noteq> Inr []"
  by (simp add: get_action_def get_action_failed_def is_connected_def
      connected_without_control_loop_def system_without_control_loop_def connected_def
      attribute_error_def)

text \<open>
  With the control loop there, the code does what the claim says. If the control loop
  has no robot interface, \<^verbatim>\<open>get_action\<close> logs a warning and returns the empty action
  record. An exception raised by a query of the angles is logged as an error and raised
  again as it is: the result is that exception, the adapter is unchanged and no action
  record is produced.
\<close>

lemma get_action_with_control_loop:
  assumes "is_connected a" and "telegrip_system a = Some sys" and "control_loop sys = Some cl"
  shows
    "(robot_interface cl = None \<longrightarrow>
        get_action a =
          (Inr [], a\<lparr>last_action := Some []\<rparr>,
           [Log WARNING ''Robot interface not available in telegrip system''])) \<and>
     (\<forall>ri e. robot_interface cl = Some ri \<and>
        (if bimanual (config a) then
           get_arm_angles ri ''left'' = Inl e \<or>
           (\<exists>left_angles. get_arm_angles ri ''left'' = Inr left_angles) \<and>
             get_arm_angles ri ''right'' = Inl e
         else get_arm_angles ri ''right'' = Inl e) \<longrightarrow>
        fst (get_action a) = Inl (Raised e) \<and>
        fst (snd (get_action a)) = a \<and>
        last (snd (snd (get_action a))) =
          Log ERROR (''Error getting action from telegrip: '' @ exn_msg e))"
  using assms
  by (auto simp add: get_action_def get_action_done_def get_action_failed_def)

lemma get_action_with_control_loop_example:
  "is_connected (connected default_config (running_system None [])) \<and>
   fst (get_action (connected default_config (running_system None []))) = Inr [] \<and>
   is_connected (connected default_config (running_system (Some broken_arms) [])) \<and>
   get_arm_angles broken_arms ''right'' = Inl serial_error \<and>
   fst (get_action (connected default_config (running_system (Some broken_arms) []))) =
     Inl (Raised serial_error)"
proof -
  let ?a = "connected default_config (running_system None [])"
  let ?b = "connected default_config (running_system (Some broken_arms) [])"
  have ca: "is_connected ?a" and cb: "is_connected ?b"
    by (simp_all add: is_connected_def connected_def running_system_def)
  have sa: "telegrip_system ?a = Some (running_system None [])"
    and sb: "telegrip_system ?b = Some (running_system (Some broken_arms) [])"
    by (simp_all add: connected_def)
  have la: "control_loop (running_system None []) = Some \<lparr> robot_interface = None \<rparr>"
    and lb: "control_loop (running_system (Some broken_arms) []) =
      Some \<lparr> robot_interface = Some broken_arms \<rparr>"
    by (simp_all add: running_system_def)
  have nb: "\<not> bimanual (config ?b)"
    by (simp add: connected_def init_def default_config_def)
  have r: "get_arm_angles broken_arms ''right'' = Inl serial_error"
    by (simp add: broken_arms_def)
  show ?thesis
    using ca cb r nb get_action_with_control_loop [OF ca sa la] get_action_with_control_loop [OF cb sb lb]
    by simp
qed

subsection \<open>Connecting\<close>

text \<open>
  Claim C8. \<^verbatim>\<open>connect\<close> on a connected adapter raises \<^verbatim>\<open>DeviceAlreadyConnectedError\<close>;
  the adapter is unchanged and no call is made: no subsystem, thread or loop is created.
\<close>

theorem connect_twice:
  assumes "is_connected a"
  shows "connect env cal a =
    (Inl (DeviceAlreadyConnectedError (self_str a @ '' already connected'')), a, [])"
  using assms by (simp add: connect_def)

theorem connect_twice_witness:
  "is_connected (connected default_config (running_system None [])) \<and>
   connect (env_ok (running_system None [])) True
     (connected default_config (running_system None [])) =
   (Inl (DeviceAlreadyConnectedError ''telegrip already connected''),
    connected default_config (running_system None []), [])"
proof -
  have c: "is_connected (connected default_config (running_system None []))"
    by (simp add: is_connected_def connected_def running_system_def)
  have s: "self_str (connected default_config (running_system None [])) = ''telegrip''"
    by (simp add: connected_def init_def)
  show ?thesis
    using c connect_twice [OF c, of "env_ok (running_system None [])" True]
    by (simp add: s)
qed

lemma is_connected_flag_False: "\<not> is_connected (a\<lparr>is_connected_flag := False\<rparr>)"
  by (simp add: is_connected_def split: option.split)

text \<open>
  Claim C4, as stated, fails, in two ways. With \<^verbatim>\<open>autoconnect\<close> set and a robot
  interface whose \<^verbatim>\<open>engage\<close> raises, \<^verbatim>\<open>connect\<close> raises that exception while the
  adapter keeps the handle of the thread it has started. And when the subsystem's
  \<^verbatim>\<open>start()\<close> raises, on the background thread, \<^verbatim>\<open>connect\<close> returns normally with the
  connection flag set: that failure is not propagated.
\<close>

theorem connect_failure_counterexample:
  "\<not> is_connected (init ''telegrip'' autoconnect_config) \<and>
   engage broken_arms = Some serial_error \<and>
   fst (connect (env_ok (running_system (Some broken_arms) [])) True
          (init ''telegrip'' autoconnect_config)) = Inl (Raised serial_error) \<and>
   telegrip_thread (fst (snd (connect (env_ok (running_system (Some broken_arms) [])) True
          (init ''telegrip'' autoconnect_config)))) = Some 1 \<and>
   \<not> is_connected (init ''telegrip'' default_config) \<and>
   start_result env_start_fails = Some start_error \<and>
   fst (connect env_start_fails True (init ''telegrip'' default_config)) = Inr () \<and>
   is_connected_flag (fst (snd (connect env_start_fails True
          (init ''telegrip'' default_config)))) = True"
  by (simp add: connect_def auto_engage_def connect_failed_def connect_done_def
      run_telegrip_in_thread_def is_connected_def init_def env_ok_def env_start_fails_def
      running_system_def broken_arms_def autoconnect_config_def default_config_def)

text \<open>
  Claim C4, amended. A failure raised on the calling thread during the setup of
  \<^verbatim>\<open>connect\<close> (the import of the package, the construction of the subsystem, the start
  of the thread, the engage call) is logged and raised again as it is, and the adapter
  is disconnected afterwards; when it comes before the thread is created (import,
  construction), nothing but the connection flag is written, so the adapter holds no
  handle it did not hold before. A failure of the subsystem's own \<^verbatim>\<open>start()\<close> is raised
  on the background thread, where it is caught and logged: it is not propagated, and if
  nothing fails on the calling thread \<^verbatim>\<open>connect\<close> returns with the connection flag set.
\<close>

theorem connect_failure:
  assumes "\<not> is_connected a"
  shows
    "(import_telegrip env = Some e \<or>
      import_telegrip env = None \<and>
        new_TelegripSystem env (telegrip_config (config a)) = Inl e \<or>
      import_telegrip env = None \<and>
        new_TelegripSystem env (telegrip_config (config a)) = Inr sys \<and>
        thread_start env = Some e \<or>
      import_telegrip env = None \<and>
        new_TelegripSystem env (telegrip_config (config a)) = Inr sys \<and>
        thread_start env = None \<and> autoconnect (config a) \<and> enable_robot (config a) \<and>
        control_loop sys = Some cl \<and> robot_interface cl = Some ri \<and> engage ri = Some e \<longrightarrow>
        fst (connect env cal a) = Inl (Raised e) \<and>
        \<not> is_connected (fst (snd (connect env cal a))) \<and>
        last (snd (snd (connect env cal a))) =
          Log ERROR (''Failed to connect telegrip: '' @ exn_msg e) \<and>
        (import_telegrip env \<noteq> None \<or>
         new_TelegripSystem env (telegrip_config (config a)) = Inl e \<longrightarrow>
           fst (snd (connect env cal a)) = a\<lparr>is_connected_flag := False\<rparr>)) \<and>
     (import_telegrip env = None \<and>
        new_TelegripSystem env (telegrip_config (config a)) = Inr sys \<and>
        thread_start env = None \<and> thread_loop env = Some l \<and>
        start_result env = Some e' \<and>
        (autoconnect (config a) \<and> enable_robot (config a) \<longrightarrow>
           (\<forall>cl ri. control_loop sys = Some cl \<and> robot_interface cl = Some ri \<longrightarrow>
              engage ri = None)) \<longrightarrow>
        fst (connect env cal a) = Inr () \<and>
        is_connected_flag (fst (snd (connect env cal a))) \<and>
        Log ERROR (''Error in telegrip thread: '' @ exn_msg e') \<in>
          set (snd (snd (connect env cal a))))"
proof
  show "import_telegrip env = Some e \<or>
      import_telegrip env = None \<and>
        new_TelegripSystem env (telegrip_config (config a)) = Inl e \<or>
      import_telegrip env = None \<and>
        new_TelegripSystem env (telegrip_config (config a)) = Inr sys \<and>
        thread_start env = Some e \<or>
      import_telegrip env = None \<and>
        new_TelegripSystem env (telegrip_config (config a)) = Inr sys \<and>
        thread_start env = None \<and> autoconnect (config a) \<and> enable_robot (config a) \<and>
        control_loop sys = Some cl \<and> robot_interface cl = Some ri \<and> engage ri = Some e \<longrightarrow>
        fst (connect env cal a) = Inl (Raised e) \<and>
        \<not> is_connected (fst (snd (connect env cal a))) \<and>
        last (snd (snd (connect env cal a))) =
          Log ERROR (''Failed to connect telegrip: '' @ exn_msg e) \<and>
        (import_telegrip env \<noteq> None \<or>
         new_TelegripSystem env (telegrip_config (config a)) = Inl e \<longrightarrow>
           fst (snd (connect env cal a)) = a\<lparr>is_connected_flag := False\<rparr>)"
    using assms
    by (auto simp add: connect_def auto_engage_def connect_failed_def Let_def
        run_telegrip_in_thread_def is_connected_flag_False split: option.splits)
next
  show "import_telegrip env = None \<and>
        new_TelegripSystem env (telegrip_config (config a)) = Inr sys \<and>
        thread_start env = None \<and> thread_loop env = Some l \<and>
        start_result env = Some e' \<and>
        (autoconnect (config a) \<and> enable_robot (config a) \<longrightarrow>
           (\<forall>cl ri. control_loop sys = Some cl \<and> robot_interface cl = Some ri \<longrightarrow>
              engage ri = None)) \<longrightarrow>
        fst (connect env cal a) = Inr () \<and>
        is_connected_flag (fst (snd (connect env cal a))) \<and>
        Log ERROR (''Error in telegrip thread: '' @ exn_msg e') \<in>
          set (snd (snd (connect env cal a)))"
    using assms
    by (auto simp add: connect_def auto_engage_def connect_done_def Let_def
        run_telegrip_in_thread_def split: option.splits)
qed

theorem connect_failure_witness:
  "\<not> is_connected (init ''telegrip'' autoconnect_config) \<and>
   engage broken_arms = Some serial_error \<and>
   fst (connect (env_ok (running_system (Some broken_arms) [])) True
          (init ''telegrip'' autoconnect_config)) = Inl (Raised serial_error) \<and>
   \<not> is_connected (fst (snd (connect (env_ok (running_system (Some broken_arms) [])) True
          (init ''telegrip'' autoconnect_config)))) \<and>
   import_telegrip env_no_package = Some import_error \<and>
   fst (connect env_no_package True (init ''telegrip'' autoconnect_config)) =
     Inl (Raised import_error) \<and>
   telegrip_thread (fst (snd (connect env_no_package True
     (init ''telegrip'' autoconnect_config)))) = None \<and>
   \<not> is_connected (init ''telegrip'' default_config) \<and>
   start_result env_start_fails = Some start_error \<and>
   fst (connect env_start_fails True (init ''telegrip'' default_config)) = Inr () \<and>
   Log ERROR ''Error in telegrip thread: address already in use'' \<in>
     set (snd (snd (connect env_start_fails True (init ''telegrip'' default_config))))"
proof -
  let ?a = "init ''telegrip'' autoconnect_config"
  let ?b = "init ''telegrip'' default_config"
  let ?sys = "running_system (Some broken_arms) []"
  have n: "\<not> is_connected ?a" and nb: "\<not> is_connected ?b"
    by (simp_all add: is_connected_def init_def)
  have h1: "import_telegrip (env_ok ?sys) = None \<and>
      new_TelegripSystem (env_ok ?sys) (telegrip_config (config ?a)) = Inr ?sys \<and>
      thread_start (env_ok ?sys) = None \<and> autoconnect (config ?a) \<and> enable_robot (config ?a) \<and>
      control_loop ?sys = Some \<lparr> robot_interface = Some broken_arms \<rparr> \<and>
      robot_interface \<lparr> robot_interface = Some broken_arms \<rparr> = Some broken_arms \<and>
      engage broken_arms = Some serial_error"
    by (simp add: env_ok_def init_def autoconnect_config_def default_config_def
        running_system_def broken_arms_def)
  have h2: "import_telegrip env_no_package = Some import_error"
    by (simp add: env_no_package_def)
  have h3: "import_telegrip env_start_fails = None \<and>
      new_TelegripSystem env_start_fails (telegrip_config (config ?b)) =
        Inr (running_system None []) \<and>
      thread_start env_start_fails = None \<and> thread_loop env_start_fails = Some 2 \<and>
      start_result env_start_fails = Some start_error \<and>
      \<not> autoconnect (config ?b)"
    by (simp add: env_start_fails_def env_ok_def init_def default_config_def)
  have m: "exn_msg start_error = ''address already in use''"
    by (simp add: start_error_def)
  have t: "telegrip_thread ?a = None"
    by (simp add: init_def)
  show ?thesis
    using n nb h1 h2 h3 t
      connect_failure [OF n, of "env_ok ?sys" serial_error ?sys
        "\<lparr> robot_interface = Some broken_arms \<rparr>" broken_arms True]
      connect_failure [OF n, of env_no_package import_error _ _ _ True]
      connect_failure [OF nb, of env_start_fails _ "running_system None []" _ _ True 2
        start_error]
    by (simp add: m)
qed

subsection \<open>Disconnecting\<close>

text \<open>
  Claim C3, as stated, fails: on a connected adapter that holds no event loop,
  \<^verbatim>\<open>disconnect\<close> returns and the references to the subsystem and to the thread are
  still there. The teardown, the clearing of the references included, is under the
  test \<^verbatim>\<open>if self._telegrip_system and self._loop\<close>.
\<close>

theorem disconnect_keeps_references_counterexample:
  "is_connected connected_without_loop \<and>
   fst (disconnect (stop_env Stopped) connected_without_loop) = Inr () \<and>
   telegrip_system (fst (snd (disconnect (stop_env Stopped) connected_without_loop))) \<noteq> None \<and>
   telegrip_thread (fst (snd (disconnect (stop_env Stopped) connected_without_loop))) = Some 1"
  by (simp add: disconnect_def disconnect_done_def is_connected_def connected_without_loop_def
      connected_def init_def running_system_def)

text \<open>
  Claim C3, amended. On a connected adapter \<^verbatim>\<open>disconnect\<close> returns whenever the stop
  coroutine can be scheduled and the loop asked to stop, whether the stop call then
  completes, raises or times out. Whenever it returns, the adapter is disconnected; and
  if the adapter held an event loop, the references to the subsystem, the loop and the
  thread are all cleared.
\<close>

theorem disconnect_result:
  assumes "is_connected a"
  shows
    "(schedule_stop env = None \<and> loop_stop env = None \<longrightarrow> fst (disconnect env a) = Inr ()) \<and>
     (fst (disconnect env a) = Inr () \<longrightarrow>
        \<not> is_connected (fst (snd (disconnect env a))) \<and>
        (loop a \<noteq> None \<longrightarrow>
           telegrip_system (fst (snd (disconnect env a))) = None \<and>
           loop (fst (snd (disconnect env a))) = None \<and>
           telegrip_thread (fst (snd (disconnect env a))) = None))"
proof -
  obtain sys where sys: "telegrip_system a = Some sys"
    using assms by (auto simp add: is_connected_def split: option.splits)
  show ?thesis
    using assms sys
    by (auto simp add: disconnect_def disconnect_done_def disconnect_failed_def Let_def
        is_connected_def split: option.splits)
qed

theorem disconnect_result_witness:
  "is_connected (connected default_config (running_system None [])) \<and>
   loop (connected default_config (running_system None [])) \<noteq> None \<and>
   fst (disconnect (stop_env Stopped) (connected default_config (running_system None []))) = Inr () \<and>
   telegrip_system (fst (snd (disconnect (stop_env (Stop_raised serial_error))
      (connected default_config (running_system None []))))) = None \<and>
   \<not> is_connected (fst (snd (disconnect (stop_env Stop_timed_out)
      (connected default_config (running_system None [])))))"
proof -
  let ?a = "connected default_config (running_system None [])"
  have c: "is_connected ?a"
    by (simp add: is_connected_def connected_def running_system_def)
  have l: "loop ?a \<noteq> None"
    by (simp add: connected_def)
  have e: "schedule_stop (stop_env r) = None \<and> loop_stop (stop_env r) = None" for r
    by (simp add: stop_env_def)
  show ?thesis
    using c l e disconnect_result [OF c, of "stop_env Stopped"]
      disconnect_result [OF c, of "stop_env (Stop_raised serial_error)"]
      disconnect_result [OF c, of "stop_env Stop_timed_out"]
    by simp
qed

end
